theory Spec2Isabelle
  imports Complex_Main "HOL-Library.AList" "HOL-Library.Sublist"
begin

section \<open>Python values and exceptions\<close>

text \<open>
  The scalar Python objects that reach \<^verbatim>\<open>interface.py\<close> as a method name or as the
  value of a keyword option: \<^verbatim>\<open>None\<close>, a \<^verbatim>\<open>bool\<close> or a \<^verbatim>\<open>str\<close>. A \<^verbatim>\<open>str\<close> is a
  list of characters with code points below 256. On these values Python's \<^verbatim>\<open>==\<close>
  is structural equality, and all of them are hashable.
\<close>

datatype pyval = PyNone | PyBool bool | PyStr string

text \<open>The truth value Python gives an object in \<^verbatim>\<open>if not x\<close>.\<close>

fun truthy :: "pyval \<Rightarrow> bool" where
  "truthy PyNone = False"
| "truthy (PyBool b) = b"
| "truthy (PyStr s) = (s \<noteq> [])"

text \<open>
  The exceptions that leave the module: \<^verbatim>\<open>ValueError\<close> (raised by \<^verbatim>\<open>get_method\<close>, and by
  numpy for a negative repeat count) and \<^verbatim>\<open>IndexError\<close> (raised by numpy when an array
  is indexed with more indices than it has dimensions), each with its message.
\<close>

datatype py_error = ValueError string | IndexError string

subsection \<open>\<^verbatim>\<open>str.lower\<close>, \<^verbatim>\<open>str\<close> and \<^verbatim>\<open>repr\<close>\<close>

text \<open>
  \<^verbatim>\<open>str.lower\<close> on code points below 256: the upper-case letters are \<^verbatim>\<open>A\<close> to \<^verbatim>\<open>Z\<close>
  (65 to 90) and the Latin-1 capitals 192 to 222 without the multiplication sign 215;
  the lower-case partner of each is 32 above it.
\<close>

definition is_upper :: "char \<Rightarrow> bool" where
  "is_upper c =
     (let k = (of_char c :: nat)
      in (65 \<le> k \<and> k \<le> 90) \<or> (192 \<le> k \<and> k \<le> 222 \<and> k \<noteq> 215))"

definition lower_char :: "char \<Rightarrow> char" where
  "lower_char c = (if is_upper c then char_of ((of_char c :: nat) + 32) else c)"

definition lower :: "string \<Rightarrow> string" where
  "lower s = map lower_char s"

text \<open>\<^verbatim>\<open>str(v)\<close>, which is also what \<^verbatim>\<open>"{}".format(v)\<close> inserts.\<close>

fun py_str :: "pyval \<Rightarrow> string" where
  "py_str PyNone = ''None''"
| "py_str (PyBool b) = (if b then ''True'' else ''False'')"
| "py_str (PyStr s) = s"

text \<open>
  \<^verbatim>\<open>repr(v)\<close>: a string is put between single quotes. (Python escapes quotes,
  backslashes and unprintable characters inside; the keys of the registry have none.)
\<close>

fun py_repr :: "pyval \<Rightarrow> string" where
  "py_repr (PyStr s) = [CHR 0x27] @ s @ [CHR 0x27]"
| "py_repr v = py_str v"

fun join :: "string \<Rightarrow> string list \<Rightarrow> string" where
  "join sep [] = []"
| "join sep [x] = x"
| "join sep (x # y # ys) = x @ sep @ join sep (y # ys)"

text \<open>\<^verbatim>\<open>str(vs)\<close> of a list \<^verbatim>\<open>vs\<close>.\<close>

definition py_str_list :: "pyval list \<Rightarrow> string" where
  "py_str_list vs = ''['' @ join '', '' (map py_repr vs) @ '']''"

section \<open>numpy arrays and the object store\<close>

text \<open>
  An \<^verbatim>\<open>ndarray\<close> is its shape and its elements in row-major order. The element type
  is a parameter with a zero: the module's fields are floating-point grids, and the
  code under verification only copies elements and writes the zeros of \<^verbatim>\<open>np.zeros\<close>.
\<close>

record 'a ndarray =
  shape :: "nat list"
  data :: "'a list"

definition wf_ndarray :: "'a ndarray \<Rightarrow> bool" where
  "wf_ndarray a = (length (data a) = prod_list (shape a))"

text \<open>
  \<^verbatim>\<open>a[np.newaxis, :, :, ]\<close>: a view of \<^verbatim>\<open>a\<close> with a new leading axis of length 1.
  The two slices need two dimensions; numpy raises \<^verbatim>\<open>IndexError\<close> on fewer.
\<close>

definition newaxis_slice2 :: "'a ndarray \<Rightarrow> py_error + 'a ndarray" where
  "newaxis_slice2 a =
     (if length (shape a) < 2 then Inl (IndexError ''too many indices for array'')
      else Inr (a\<lparr>shape := 1 # shape a\<rparr>))"

text \<open>
  \<^verbatim>\<open>np.repeat(a, repeats, axis=0)\<close> for an integer \<^verbatim>\<open>repeats\<close>: a new array in which
  each \<^verbatim>\<open>a[k]\<close> stands \<^verbatim>\<open>repeats\<close> times in a row. A negative count raises
  \<^verbatim>\<open>ValueError\<close>; a zero-dimensional array is repeated as a one-element vector.
\<close>

definition np_repeat :: "'a ndarray \<Rightarrow> int \<Rightarrow> py_error + 'a ndarray" where
  "np_repeat a repeats =
     (let d = (case shape a of [] \<Rightarrow> 1 | d # ds \<Rightarrow> d);
          ds = (case shape a of [] \<Rightarrow> [] | d # ds \<Rightarrow> ds);
          sz = prod_list ds
      in if repeats < 0 then Inl (ValueError ''repeats may not contain negative values.'')
         else Inr \<lparr>shape = (d * nat repeats) # ds,
                   data = concat (map (\<lambda>k. concat (replicate (nat repeats)
                                   (take sz (drop (k * sz) (data a))))) [0..<d])\<rparr>)"

text \<open>\<^verbatim>\<open>np.zeros(sh)\<close>.\<close>

definition np_zeros :: "nat list \<Rightarrow> ('a::zero) ndarray" where
  "np_zeros sh = \<lparr>shape = sh, data = replicate (prod_list sh) 0\<rparr>"

text \<open>
  \<^verbatim>\<open>a[k]\<close> for a natural number \<^verbatim>\<open>k\<close>: the \<^verbatim>\<open>k\<close>-th entry along the first axis, or
  \<^verbatim>\<open>IndexError\<close>. The module does not call it; the theorems use it to speak of the
  field at one time step.
\<close>

definition getitem :: "'a ndarray \<Rightarrow> nat \<Rightarrow> py_error + 'a ndarray" where
  "getitem a k =
     (case shape a of
        [] \<Rightarrow> Inl (IndexError ''too many indices for array'')
      | d # ds \<Rightarrow>
          if k < d
          then Inr \<lparr>shape = ds, data = take (prod_list ds) (drop (k * prod_list ds) (data a))\<rparr>
          else Inl (IndexError ''index out of bounds''))"

text \<open>
  Arrays are objects: a caller passes a reference, and could observe a write through
  it. The store is the list of the arrays allocated so far, a reference is a position
  in it, and a new array goes to the end.
\<close>

type_synonym addr = nat

type_synonym 'a heap = "'a ndarray list"

definition alloc :: "'a heap \<Rightarrow> 'a ndarray \<Rightarrow> addr \<times> 'a heap" where
  "alloc h a = (length h, h @ [a])"

text \<open>
  What an extrapolation method returns: \<^verbatim>\<open>None\<close>, an array, or a tuple of two arrays.
\<close>

datatype result = RNone | RArray addr | RTuple addr addr

section \<open>The module \<^verbatim>\<open>pysteps.extrapolation.interface\<close>\<close>

text \<open>
  \<^verbatim>\<open>**kwargs\<close> is the dictionary of the keyword arguments of a call that are not
  names of the function's parameters, and \<^verbatim>\<open>kwargs.get(key, default)\<close> reads it.
\<close>

type_synonym kwargs = "string \<rightharpoonup> pyval"

definition dict_get :: "kwargs \<Rightarrow> string \<Rightarrow> pyval \<Rightarrow> pyval" where
  "dict_get kw key dflt = (case kw key of None \<Rightarrow> dflt | Some v \<Rightarrow> v)"

text \<open>
  \<^verbatim>\<open>eulerian_persistence(precip, velocity, num_timesteps, **kwargs)\<close>. \<^verbatim>\<open>precip\<close> and
  \<^verbatim>\<open>velocity\<close> are references into the store; \<^verbatim>\<open>velocity\<close> is deleted unread. An
  exception leaves the store as it was.
\<close>

definition eulerian_persistence ::
  "('a::zero) heap \<Rightarrow> addr \<Rightarrow> addr \<Rightarrow> int \<Rightarrow> kwargs \<Rightarrow> (py_error + result) \<times> 'a heap" where
  "eulerian_persistence h precip velocity num_timesteps kw =
     (let return_displacement = dict_get kw ''return_displacement'' (PyBool False)
      in case newaxis_slice2 (h ! precip) of
           Inl e \<Rightarrow> (Inl e, h)
         | Inr view \<Rightarrow>
             (case np_repeat view num_timesteps of
                Inl e \<Rightarrow> (Inl e, h)
              | Inr extrapolated_precip \<Rightarrow>
                  (let (r, h1) = alloc h extrapolated_precip
                   in if \<not> truthy return_displacement then (Inr (RArray r), h1)
                      else (let (z, h2) = alloc h1 (np_zeros (2 # shape extrapolated_precip))
                            in (Inr (RTuple r z), h2)))))"

text \<open>\<^verbatim>\<open>_do_nothing(precip, velocity, num_timesteps, **kwargs)\<close>.\<close>

definition do_nothing ::
  "'a heap \<Rightarrow> addr \<Rightarrow> addr \<Rightarrow> int \<Rightarrow> kwargs \<Rightarrow> (py_error + result) \<times> 'a heap" where
  "do_nothing h precip velocity num_timesteps kw = (Inr RNone, h)"

text \<open>
  The function objects the registry holds. \<^verbatim>\<open>Eulerian_persistence\<close> is the function
  embedded as \<^const>\<open>eulerian_persistence\<close>, \<^verbatim>\<open>Do_nothing\<close> the one embedded as
  \<^const>\<open>do_nothing\<close>, and \<^verbatim>\<open>Semilagrangian_extrapolate\<close> is
  \<^verbatim>\<open>semilagrangian.extrapolate\<close>, imported from a module outside this file.
\<close>

datatype extrapolator = Eulerian_persistence | Semilagrangian_extrapolate | Do_nothing

text \<open>
  \<^verbatim>\<open>_extrapolation_methods\<close>: an empty \<^verbatim>\<open>dict\<close> and three item assignments. A Python
  dictionary keeps its keys in insertion order and an assignment to a key it has
  replaces the value in place, which is \<^const>\<open>AList.update\<close>.
\<close>

type_synonym registry = "(pyval \<times> extrapolator) list"

definition extrapolation_methods :: registry where
  "extrapolation_methods =
     AList.update PyNone Do_nothing
       (AList.update (PyStr ''semilagrangian'') Semilagrangian_extrapolate
         (AList.update (PyStr ''eulerian'') Eulerian_persistence []))"

text \<open>
  The first statement of \<^verbatim>\<open>get_method\<close>:
  \<^verbatim>\<open>if isinstance(name, str): name = name.lower()\<close>.
\<close>

definition lower_if_str :: "pyval \<Rightarrow> pyval" where
  "lower_if_str name = (case name of PyStr s \<Rightarrow> PyStr (lower s) | _ \<Rightarrow> name)"

text \<open>
  \<^verbatim>\<open>get_method(name)\<close>. The registry is module state, so it is passed in and handed
  back. \<^verbatim>\<open>name\<close> is rebound to its lower-case form when it is a \<^verbatim>\<open>str\<close>, and the
  rebound name is the one looked up and the one formatted into the message.
\<close>

definition get_method :: "registry \<Rightarrow> pyval \<Rightarrow> (py_error + extrapolator) \<times> registry" where
  "get_method methods name0 =
     (let name = lower_if_str name0
      in case map_of methods name of
           Some f \<Rightarrow> (Inr f, methods)
         | None \<Rightarrow>
             (Inl (ValueError (''Unknown method '' @ py_str name @ ''\<newline>''
                               @ ''The available methods are:''
                               @ py_str_list (map fst methods))),
              methods))"

section \<open>The semi-Lagrangian extrapolator, from the specification\<close>

text \<open>
  \<^verbatim>\<open>interface.py\<close> imports \<^verbatim>\<open>semilagrangian.extrapolate\<close> from the module
  \<^verbatim>\<open>pysteps/extrapolation/semilagrangian.py\<close>, whose code is not at hand. The
  definitions of this section follow sections 3, 4.3 and 6 of the specification instead.
\<close>
































section \<open>Notions the theorems use\<close>

text \<open>Whether a call of \<^const>\<open>eulerian_persistence\<close> asks for the displacement.\<close>

definition displacement_requested :: "kwargs \<Rightarrow> bool" where
  "displacement_requested kw = truthy (dict_get kw ''return_displacement'' (PyBool False))"



section \<open>Lemmas about lists, arrays and strings\<close>

lemma drop_concat_replicate:
  "length xs = k \<Longrightarrow> t \<le> N \<Longrightarrow>
     drop (t * k) (concat (replicate N xs)) = concat (replicate (N - t) xs)"
proof (induction t arbitrary: N)
  case 0
  then show ?case by simp
next
  case (Suc t)
  then obtain N' where N: "N = Suc N'" and le: "t \<le> N'"
    by (cases N) auto
  have "drop (Suc t * k) (concat (replicate N xs)) = drop (t * k) (concat (replicate N' xs))"
    using Suc.prems(1) by (simp add: N add.commute)
  with Suc.IH [OF Suc.prems(1) le] show ?case
    by (simp add: N)
qed

lemma take_concat_replicate:
  "length xs = k \<Longrightarrow> 0 < N \<Longrightarrow> take k (concat (replicate N xs)) = xs"
  by (cases N) auto

lemma block_concat_replicate:
  assumes "length xs = k" "t < N"
  shows "take k (drop (t * k) (concat (replicate N xs))) = xs"
proof -
  have "drop (t * k) (concat (replicate N xs)) = concat (replicate (N - t) xs)"
    using assms by (simp add: drop_concat_replicate)
  moreover have "0 < N - t" using assms by simp
  ultimately show ?thesis
    using assms(1) by (simp add: take_concat_replicate)
qed

lemma getitem_np_zeros:
  "getitem (np_zeros (d # ds) :: ('a::zero) ndarray) k =
     (if k < d then Inr (np_zeros ds) else Inl (IndexError ''index out of bounds''))"
proof (cases "k < d")
  case True
  then have "1 \<le> d - k" by simp
  then have "1 * prod_list ds \<le> (d - k) * prod_list ds"
    by (rule mult_le_mono1)
  then have "min (prod_list ds) (d * prod_list ds - k * prod_list ds) = prod_list ds"
    by (simp add: diff_mult_distrib)
  with True show ?thesis
    by (simp add: getitem_def np_zeros_def)
next
  case False
  then show ?thesis
    by (simp add: getitem_def np_zeros_def)
qed

lemma lower_char_idem: "lower_char (lower_char c) = lower_char c"
  by (auto simp: lower_char_def is_upper_def Let_def)

lemma lower_idem: "lower (lower s) = lower s"
  by (simp add: lower_def lower_char_idem)

section \<open>What \<^const>\<open>eulerian_persistence\<close> computes\<close>

lemma newaxis_slice2_2d:
  "2 \<le> length (shape a) \<Longrightarrow> newaxis_slice2 a = Inr (a\<lparr>shape := 1 # shape a\<rparr>)"
  by (simp add: newaxis_slice2_def)

lemma np_repeat_newaxis:
  assumes "wf_ndarray a" "0 \<le> N"
  shows "np_repeat (a\<lparr>shape := Suc 0 # shape a\<rparr>) N =
           Inr \<lparr>shape = nat N # shape a, data = concat (replicate (nat N) (data a))\<rparr>"
  using assms by (simp add: np_repeat_def wf_ndarray_def)

lemma eulerian_persistence_eq:
  assumes "2 \<le> length (shape (h ! precip))" "wf_ndarray (h ! precip)" "0 \<le> N"
  shows "eulerian_persistence h precip velocity N kw =
           (let E = \<lparr>shape = nat N # shape (h ! precip),
                     data = concat (replicate (nat N) (data (h ! precip)))\<rparr>
            in if displacement_requested kw
               then (Inr (RTuple (length h) (Suc (length h))),
                     h @ [E, np_zeros (2 # nat N # shape (h ! precip))])
               else (Inr (RArray (length h)), h @ [E]))"
  using assms
  by (simp add: eulerian_persistence_def newaxis_slice2_2d np_repeat_newaxis alloc_def
      displacement_requested_def Let_def)


section \<open>What \<^const>\<open>get_method\<close> computes\<close>

lemma map_of_methods:
  "map_of extrapolation_methods =
     [PyStr ''eulerian'' \<mapsto> Eulerian_persistence,
      PyStr ''semilagrangian'' \<mapsto> Semilagrangian_extrapolate,
      PyNone \<mapsto> Do_nothing]"
  by (auto simp: extrapolation_methods_def fun_eq_iff)

lemma keys_methods:
  "map fst extrapolation_methods = [PyStr ''eulerian'', PyStr ''semilagrangian'', PyNone]"
  by (simp add: extrapolation_methods_def)

lemma str_keys:
  "py_str_list [PyStr ''eulerian'', PyStr ''semilagrangian'', PyNone]
     = ''['eulerian', 'semilagrangian', None]''"
  by (simp add: py_str_list_def)

lemma get_method_hit:
  "map_of methods (lower_if_str name) = Some f \<Longrightarrow> get_method methods name = (Inr f, methods)"
  by (simp add: get_method_def)

lemma get_method_miss:
  "map_of methods (lower_if_str name) = None \<Longrightarrow>
     get_method methods name =
       (Inl (ValueError (''Unknown method '' @ py_str (lower_if_str name) @ ''\<newline>''
                         @ ''The available methods are:'' @ py_str_list (map fst methods))),
        methods)"
  by (simp add: get_method_def)

section \<open>The specified extrapolator at zero velocity\<close>





















section \<open>Eulerian persistence\<close>

text \<open>
  Claim C1. For a two-dimensional field \<^verbatim>\<open>F\<close> of shape \<^verbatim>\<open>(m, n)\<close>, any velocity and any
  \<^verbatim>\<open>N >= 1\<close>, \<^verbatim>\<open>eulerian_persistence\<close> returns a new array of shape \<^verbatim>\<open>(N, m, n)\<close>
  (first in a tuple when the displacement is requested as well): its entries
  \<^verbatim>\<open>0, ..., N-1\<close> along the first axis are each equal to \<^verbatim>\<open>F\<close>, there is no entry
  \<^verbatim>\<open>N\<close> or beyond, and every array that existed before the call, the input field among
  them, is what it was.
\<close>

theorem eulerian_persistence_replicates:
  assumes "precip < length h" and "shape (h ! precip) = [m, n]"
    and "wf_ndarray (h ! precip)" and "1 \<le> N"
  shows "\<exists>h'. eulerian_persistence h precip velocity N kw =
            (Inr (if displacement_requested kw then RTuple (length h) (Suc (length h))
                  else RArray (length h)), h')
          \<and> shape (h' ! length h) = [nat N, m, n]
          \<and> (\<forall>t. getitem (h' ! length h) t =
                 (if t < nat N then Inr (h ! precip) else Inl (IndexError ''index out of bounds'')))
          \<and> take (length h) h' = h
          \<and> h' ! precip = h ! precip"
proof -
  let ?F = "h ! precip"
  let ?E = "\<lparr>shape = nat N # shape ?F, data = concat (replicate (nat N) (data ?F))\<rparr>"
  let ?h' = "snd (eulerian_persistence h precip velocity N kw)"
  have len: "length (data ?F) = m * n"
    using assms(2,3) by (simp add: wf_ndarray_def)
  have run: "eulerian_persistence h precip velocity N kw =
      (if displacement_requested kw
       then (Inr (RTuple (length h) (Suc (length h))), h @ [?E, np_zeros (2 # nat N # shape ?F)])
       else (Inr (RArray (length h)), h @ [?E]))"
    using assms by (simp add: eulerian_persistence_eq Let_def)
  have E: "?h' ! length h = ?E"
    by (simp add: run)
  have items: "getitem ?E t =
      (if t < nat N then Inr ?F else Inl (IndexError ''index out of bounds''))" for t
    using assms(2) len by (simp add: getitem_def block_concat_replicate)
  have old: "take (length h) ?h' = h"
    by (simp add: run)
  have same: "?h' ! precip = ?F"
    using assms(1) by (simp add: run nth_append)
  have res: "eulerian_persistence h precip velocity N kw =
      (Inr (if displacement_requested kw then RTuple (length h) (Suc (length h))
            else RArray (length h)), ?h')"
    by (simp add: run)
  show ?thesis
    using res E items old same assms(2) by (intro exI [of _ ?h']) simp
qed

text \<open>C1 at a field of shape \<^verbatim>\<open>(1, 2)\<close> and two time steps.\<close>

theorem eulerian_persistence_replicates_witness:
  "\<exists>h'. eulerian_persistence [\<lparr>shape = [1, 2], data = [3, 0 :: int]\<rparr>] 0 0 2 Map.empty =
            (Inr (RArray 1), h')
        \<and> shape (h' ! 1) = [2, 1, 2]
        \<and> getitem (h' ! 1) 0 = Inr \<lparr>shape = [1, 2], data = [3, 0]\<rparr>
        \<and> getitem (h' ! 1) 1 = Inr \<lparr>shape = [1, 2], data = [3, 0]\<rparr>
        \<and> getitem (h' ! 1) 2 = Inl (IndexError ''index out of bounds'')
        \<and> h' ! 0 = \<lparr>shape = [1, 2], data = [3, 0]\<rparr>"
proof -
  let ?h = "[\<lparr>shape = [1, 2], data = [3, 0 :: int]\<rparr>]"
  have "\<exists>h'. eulerian_persistence ?h 0 0 2 Map.empty =
            (Inr (if displacement_requested Map.empty then RTuple (length ?h) (Suc (length ?h))
                  else RArray (length ?h)), h')
          \<and> shape (h' ! length ?h) = [nat 2, 1, 2]
          \<and> (\<forall>t. getitem (h' ! length ?h) t =
                 (if t < nat 2 then Inr (?h ! 0) else Inl (IndexError ''index out of bounds'')))
          \<and> take (length ?h) h' = ?h
          \<and> h' ! 0 = ?h ! 0"
    by (rule eulerian_persistence_replicates) (simp_all add: wf_ndarray_def)
  then obtain h' where
    1: "eulerian_persistence ?h 0 0 2 Map.empty =
            (Inr (if displacement_requested Map.empty then RTuple (length ?h) (Suc (length ?h))
                  else RArray (length ?h)), h')"
    and 2: "shape (h' ! length ?h) = [nat 2, 1, 2]"
    and 3: "\<And>t. getitem (h' ! length ?h) t =
                 (if t < nat 2 then Inr (?h ! 0) else Inl (IndexError ''index out of bounds''))"
    and 4: "h' ! 0 = ?h ! 0"
    by blast
  from 1 have "eulerian_persistence ?h 0 0 2 Map.empty = (Inr (RArray 1), h')"
    by (simp add: displacement_requested_def dict_get_def)
  moreover from 2 have "shape (h' ! 1) = [2, 1, 2]" by simp
  moreover from 3 [of 0] have "getitem (h' ! 1) 0 = Inr \<lparr>shape = [1, 2], data = [3, 0]\<rparr>" by simp
  moreover from 3 [of 1] have "getitem (h' ! 1) 1 = Inr \<lparr>shape = [1, 2], data = [3, 0]\<rparr>" by simp
  moreover from 3 [of 2] have "getitem (h' ! 1) 2 = Inl (IndexError ''index out of bounds'')" by simp
  moreover from 4 have "h' ! 0 = \<lparr>shape = [1, 2], data = [3, 0]\<rparr>" by simp
  ultimately show ?thesis by blast
qed




text \<open>
  Claim C4. When the displacement is requested, \<^verbatim>\<open>eulerian_persistence\<close> (for a field of
  shape \<^verbatim>\<open>(m, n)\<close> and \<^verbatim>\<open>N >= 0\<close>) returns a tuple whose second entry is the new
  all-zero array of shape \<^verbatim>\<open>(2, N, m, n)\<close>: each of its two components has the shape
  of the extrapolated sequence, and at every time step \<^verbatim>\<open>t < N\<close> it holds the zero grid
  of shape \<^verbatim>\<open>(m, n)\<close>.
\<close>

theorem eulerian_persistence_displacement:
  assumes "precip < length h" and "shape (h ! precip) = [m, n]"
    and "wf_ndarray (h ! precip)" and "0 \<le> N" and "displacement_requested kw"
  shows "\<exists>h'. eulerian_persistence h precip velocity N kw =
            (Inr (RTuple (length h) (Suc (length h))), h')
          \<and> shape (h' ! length h) = [nat N, m, n]
          \<and> h' ! Suc (length h) = np_zeros [2, nat N, m, n]
          \<and> (\<forall>c < 2. \<exists>D. getitem (h' ! Suc (length h)) c = Inr D
                  \<and> shape D = shape (h' ! length h)
                  \<and> (\<forall>t < nat N. getitem D t = Inr (np_zeros [m, n])))"
proof -
  let ?F = "h ! precip"
  let ?E = "\<lparr>shape = nat N # shape ?F, data = concat (replicate (nat N) (data ?F))\<rparr>"
  let ?Z = "np_zeros [2, nat N, m, n] :: 'a ndarray"
  let ?D = "np_zeros [nat N, m, n] :: 'a ndarray"
  have run: "eulerian_persistence h precip velocity N kw =
      (Inr (RTuple (length h) (Suc (length h))), h @ [?E, ?Z])"
    using assms by (simp add: eulerian_persistence_eq Let_def)
  have E: "(h @ [?E, ?Z]) ! length h = ?E" by simp
  have Z: "(h @ [?E, ?Z]) ! Suc (length h) = ?Z" by (simp add: nth_append)
  have shape_E: "shape ?E = [nat N, m, n]" using assms(2) by simp
  have shape_D: "shape ?D = [nat N, m, n]" by (simp add: np_zeros_def)
  have steps: "\<forall>t < nat N. getitem ?D t = Inr (np_zeros [m, n])"
    by (simp add: getitem_np_zeros)
  have comps: "\<forall>c < 2. \<exists>D. getitem ?Z c = Inr D \<and> shape D = shape ?E
          \<and> (\<forall>t < nat N. getitem D t = Inr (np_zeros [m, n]))"
  proof (intro allI impI)
    fix c :: nat
    assume "c < 2"
    then have "getitem ?Z c = Inr ?D" by (simp add: getitem_np_zeros)
    with shape_D shape_E steps
    show "\<exists>D. getitem ?Z c = Inr D \<and> shape D = shape ?E
          \<and> (\<forall>t < nat N. getitem D t = Inr (np_zeros [m, n]))"
      by simp
  qed
  show ?thesis
  proof (intro exI conjI)
    show "eulerian_persistence h precip velocity N kw =
        (Inr (RTuple (length h) (Suc (length h))), h @ [?E, ?Z])"
      by (rule run)
    show "shape ((h @ [?E, ?Z]) ! length h) = [nat N, m, n]"
      using shape_E by (simp only: E)
    show "(h @ [?E, ?Z]) ! Suc (length h) = np_zeros [2, nat N, m, n]"
      by (rule Z)
    show "\<forall>c < 2. \<exists>D. getitem ((h @ [?E, ?Z]) ! Suc (length h)) c = Inr D
                  \<and> shape D = shape ((h @ [?E, ?Z]) ! length h)
                  \<and> (\<forall>t < nat N. getitem D t = Inr (np_zeros [m, n]))"
      using comps by (simp only: E Z)
  qed
qed

text \<open>C4 at a field of shape \<^verbatim>\<open>(1, 2)\<close>, two time steps and \<^verbatim>\<open>return_displacement=True\<close>.\<close>

theorem eulerian_persistence_displacement_witness:
  "displacement_requested (Map.empty(''return_displacement'' \<mapsto> PyBool True))
   \<and> (\<exists>h'. eulerian_persistence [\<lparr>shape = [1, 2], data = [3, 0 :: int]\<rparr>] 0 0 2
              (Map.empty(''return_displacement'' \<mapsto> PyBool True)) = (Inr (RTuple 1 2), h')
          \<and> shape (h' ! 1) = [2, 1, 2]
          \<and> h' ! 2 = \<lparr>shape = [2, 2, 1, 2], data = [0, 0, 0, 0, 0, 0, 0, 0]\<rparr>
          \<and> (\<exists>D. getitem (h' ! 2) 1 = Inr D \<and> shape D = [2, 1, 2]
                   \<and> getitem D 0 = Inr \<lparr>shape = [1, 2], data = [0, 0]\<rparr>
                   \<and> getitem D 1 = Inr \<lparr>shape = [1, 2], data = [0, 0]\<rparr>))"
proof -
  let ?h = "[\<lparr>shape = [1, 2], data = [3, 0 :: int]\<rparr>]"
  let ?kw = "Map.empty(''return_displacement'' \<mapsto> PyBool True)"
  have rd: "displacement_requested ?kw"
    by (simp add: displacement_requested_def dict_get_def)
  have "\<exists>h'. eulerian_persistence ?h 0 0 2 ?kw =
            (Inr (RTuple (length ?h) (Suc (length ?h))), h')
          \<and> shape (h' ! length ?h) = [nat 2, 1, 2]
          \<and> h' ! Suc (length ?h) = np_zeros [2, nat 2, 1, 2]
          \<and> (\<forall>c < 2. \<exists>D. getitem (h' ! Suc (length ?h)) c = Inr D
                  \<and> shape D = shape (h' ! length ?h)
                  \<and> (\<forall>t < nat 2. getitem D t = Inr (np_zeros [1, 2])))"
    using rd by (intro eulerian_persistence_displacement) (simp_all add: wf_ndarray_def)
  then obtain h' where
    1: "eulerian_persistence ?h 0 0 2 ?kw = (Inr (RTuple (length ?h) (Suc (length ?h))), h')"
    and 2: "shape (h' ! length ?h) = [nat 2, 1, 2]"
    and 3: "h' ! Suc (length ?h) = np_zeros [2, nat 2, 1, 2]"
    and 4: "\<forall>c < 2. \<exists>D. getitem (h' ! Suc (length ?h)) c = Inr D
                  \<and> shape D = shape (h' ! length ?h)
                  \<and> (\<forall>t < nat 2. getitem D t = Inr (np_zeros [1, 2]))"
    by blast
  have "(1 :: nat) < 2" by simp
  with 4 obtain D where
    5: "getitem (h' ! Suc (length ?h)) 1 = Inr D" and 6: "shape D = shape (h' ! length ?h)"
    and 7: "\<forall>t < nat 2. getitem D t = Inr (np_zeros [1, 2])"
    by blast
  have z: "(np_zeros [1, 2] :: int ndarray) = \<lparr>shape = [1, 2], data = [0, 0]\<rparr>"
    by (simp add: np_zeros_def numeral_2_eq_2)
  have zz: "(np_zeros [2, nat 2, 1, 2] :: int ndarray)
      = \<lparr>shape = [2, 2, 1, 2], data = [0, 0, 0, 0, 0, 0, 0, 0]\<rparr>"
    by (simp add: np_zeros_def eval_nat_numeral)
  have a: "eulerian_persistence ?h 0 0 2 ?kw = (Inr (RTuple 1 2), h')"
    using 1 by simp
  have b: "shape (h' ! 1) = [2, 1, 2]"
    using 2 by simp
  have c: "h' ! 2 = \<lparr>shape = [2, 2, 1, 2], data = [0, 0, 0, 0, 0, 0, 0, 0]\<rparr>"
    using 3 zz by (simp add: numeral_2_eq_2)
  have d: "getitem (h' ! 2) 1 = Inr D"
    using 5 by (simp add: numeral_2_eq_2)
  have e: "shape D = [2, 1, 2]"
    using 6 2 by simp
  have f: "getitem D 0 = Inr \<lparr>shape = [1, 2], data = [0, 0]\<rparr>"
    using 7 z by simp
  have "(1 :: nat) < nat 2" by simp
  with 7 have "getitem D 1 = Inr (np_zeros [1, 2])" by blast
  with z have g: "getitem D 1 = Inr \<lparr>shape = [1, 2], data = [0, 0]\<rparr>"
    by simp
  from rd a b c d e f g show ?thesis
    by blast
qed

text \<open>
  Claim C8. The result of \<^verbatim>\<open>eulerian_persistence\<close>, the returned value and the store
  after the call, does not depend on the velocity argument.
\<close>

theorem eulerian_persistence_ignores_velocity:
  "eulerian_persistence h precip velocity1 N kw = eulerian_persistence h precip velocity2 N kw"
  by (simp add: eulerian_persistence_def)

text \<open>C8 at two velocity arrays that differ.\<close>

theorem eulerian_persistence_ignores_velocity_witness:
  "eulerian_persistence [\<lparr>shape = [1, 2], data = [3, 0 :: int]\<rparr>, \<lparr>shape = [2, 1, 2], data = [1, 1, 1, 1]\<rparr>,
       \<lparr>shape = [2, 1, 2], data = [0, 0, 0, 0]\<rparr>] 0 1 2 Map.empty
   = eulerian_persistence [\<lparr>shape = [1, 2], data = [3, 0 :: int]\<rparr>, \<lparr>shape = [2, 1, 2], data = [1, 1, 1, 1]\<rparr>,
       \<lparr>shape = [2, 1, 2], data = [0, 0, 0, 0]\<rparr>] 0 2 2 Map.empty"
  by (rule eulerian_persistence_ignores_velocity)

text \<open>
  Claim C9. Keyword options other than \<^verbatim>\<open>return_displacement\<close> are ignored: adding
  any of them to a call of \<^verbatim>\<open>eulerian_persistence\<close> changes neither the returned value
  nor the store, and the call with them returns (for a field of two or more
  dimensions and a count that is not negative) rather than raising.
\<close>

theorem eulerian_persistence_ignores_other_options:
  assumes "''return_displacement'' \<notin> dom extra"
  shows "eulerian_persistence h precip velocity N (kw ++ extra) =
           eulerian_persistence h precip velocity N kw
         \<and> (2 \<le> length (shape (h ! precip)) \<and> 0 \<le> N \<longrightarrow>
              \<not> isl (fst (eulerian_persistence h precip velocity N (kw ++ extra))))"
proof -
  have "extra ''return_displacement'' = None"
    using assms by (simp add: domIff)
  then have "dict_get (kw ++ extra) ''return_displacement'' d = dict_get kw ''return_displacement'' d"
    for d
    by (simp add: dict_get_def map_add_def)
  then have same: "eulerian_persistence h precip velocity N (kw ++ extra) =
           eulerian_persistence h precip velocity N kw"
    by (simp add: eulerian_persistence_def)
  have "\<not> isl (fst (eulerian_persistence h precip velocity N kw))"
    if "2 \<le> length (shape (h ! precip))" "0 \<le> N"
    using that
    by (simp add: eulerian_persistence_def newaxis_slice2_def np_repeat_def alloc_def Let_def)
  with same show ?thesis by simp
qed

text \<open>C9 at the added options \<^verbatim>\<open>outval=None, verbose=True\<close>.\<close>

theorem eulerian_persistence_ignores_other_options_witness:
  "''return_displacement'' \<notin> dom [''outval'' \<mapsto> PyNone, ''verbose'' \<mapsto> PyBool True]
   \<and> eulerian_persistence [\<lparr>shape = [1, 2], data = [3, 0 :: int]\<rparr>] 0 0 2
         (Map.empty ++ [''outval'' \<mapsto> PyNone, ''verbose'' \<mapsto> PyBool True])
       = eulerian_persistence [\<lparr>shape = [1, 2], data = [3, 0 :: int]\<rparr>] 0 0 2 Map.empty
   \<and> \<not> isl (fst (eulerian_persistence [\<lparr>shape = [1, 2], data = [3, 0 :: int]\<rparr>] 0 0 2
         (Map.empty ++ [''outval'' \<mapsto> PyNone, ''verbose'' \<mapsto> PyBool True])))"
proof -
  let ?h = "[\<lparr>shape = [1, 2], data = [3, 0 :: int]\<rparr>]"
  let ?extra = "[''outval'' \<mapsto> PyNone, ''verbose'' \<mapsto> PyBool True]"
  have key: "''return_displacement'' \<notin> dom ?extra"
    by simp
  have ok: "2 \<le> length (shape (?h ! 0)) \<and> (0 :: int) \<le> 2"
    by simp
  have "eulerian_persistence ?h 0 0 2 (Map.empty ++ ?extra) =
           eulerian_persistence ?h 0 0 2 Map.empty
         \<and> (2 \<le> length (shape (?h ! 0)) \<and> (0 :: int) \<le> 2 \<longrightarrow>
              \<not> isl (fst (eulerian_persistence ?h 0 0 2 (Map.empty ++ ?extra))))"
    using key by (rule eulerian_persistence_ignores_other_options)
  with ok key show ?thesis
    by blast
qed

section \<open>The registry\<close>

text \<open>
  Claim C2, as stated, fails: the error does not carry the requested name. For the
  name \<^verbatim>\<open>"FOO"\<close> the message names \<^verbatim>\<open>foo\<close>, and \<^verbatim>\<open>FOO\<close> occurs nowhere in it.
\<close>

theorem get_method_unknown_counterexample:
  "lower ''FOO'' \<noteq> ''eulerian'' \<and> lower ''FOO'' \<noteq> ''semilagrangian''
   \<and> fst (get_method extrapolation_methods (PyStr ''FOO'')) =
       Inl (ValueError
         ''Unknown method foo\<newline>The available methods are:['eulerian', 'semilagrangian', None]'')
   \<and> \<not> sublist ''FOO''
         ''Unknown method foo\<newline>The available methods are:['eulerian', 'semilagrangian', None]''"
proof -
  have low: "lower ''FOO'' = ''foo''" by code_simp
  have "map_of extrapolation_methods (lower_if_str (PyStr ''FOO'')) = None"
    by (simp add: lower_if_str_def low map_of_methods)
  then have "fst (get_method extrapolation_methods (PyStr ''FOO'')) =
       Inl (ValueError
         ''Unknown method foo\<newline>The available methods are:['eulerian', 'semilagrangian', None]'')"
    by (simp add: get_method_miss lower_if_str_def low keys_methods str_keys)
  moreover have "\<not> sublist ''FOO''
         ''Unknown method foo\<newline>The available methods are:['eulerian', 'semilagrangian', None]''"
    by code_simp
  ultimately show ?thesis by (simp add: low)
qed

text \<open>
  Claim C2, amended. For every name that, lower-cased when it is a string, is none of
  \<^verbatim>\<open>'eulerian'\<close>, \<^verbatim>\<open>'semilagrangian'\<close> and \<^verbatim>\<open>None\<close>, \<^verbatim>\<open>get_method\<close> returns no
  function: it raises a \<^verbatim>\<open>ValueError\<close> whose message carries the name in its
  lower-cased form and lists the three registered keys. The registry is unchanged.
\<close>

theorem get_method_unknown:
  assumes "lower_if_str name \<notin> {PyStr ''eulerian'', PyStr ''semilagrangian'', PyNone}"
  shows "get_method extrapolation_methods name =
           (Inl (ValueError (''Unknown method '' @ py_str (lower_if_str name) @ ''\<newline>''
                             @ ''The available methods are:''
                             @ ''['eulerian', 'semilagrangian', None]'')),
            extrapolation_methods)"
proof -
  have "map_of extrapolation_methods (lower_if_str name) = None"
    using assms by (simp add: map_of_methods)
  then show ?thesis
    by (simp add: get_method_miss keys_methods str_keys)
qed

text \<open>C2, amended, at the name \<^verbatim>\<open>"FOO"\<close>.\<close>

theorem get_method_unknown_witness:
  "lower_if_str (PyStr ''FOO'') \<notin> {PyStr ''eulerian'', PyStr ''semilagrangian'', PyNone}
   \<and> get_method extrapolation_methods (PyStr ''FOO'') =
       (Inl (ValueError
         ''Unknown method foo\<newline>The available methods are:['eulerian', 'semilagrangian', None]''),
        extrapolation_methods)"
proof -
  have low: "lower_if_str (PyStr ''FOO'') = PyStr ''foo''" by code_simp
  have notin: "lower_if_str (PyStr ''FOO'') \<notin> {PyStr ''eulerian'', PyStr ''semilagrangian'', PyNone}"
    by (simp add: low)
  show ?thesis
    using get_method_unknown [OF notin] notin by (simp add: low)
qed

text \<open>
  Claim C5. The lookup is case-insensitive for strings: \<^verbatim>\<open>get_method(s)\<close> and
  \<^verbatim>\<open>get_method(s.lower())\<close> have the same outcome, in any registry; and in the
  module's registry every string whose lower-case form is \<^verbatim>\<open>'eulerian'\<close> resolves to
  \<^verbatim>\<open>eulerian_persistence\<close>, every string whose lower-case form is
  \<^verbatim>\<open>'semilagrangian'\<close> to \<^verbatim>\<open>semilagrangian.extrapolate\<close>.
\<close>

theorem get_method_case_insensitive:
  "get_method methods (PyStr s) = get_method methods (PyStr (lower s))
   \<and> (lower s = ''eulerian'' \<longrightarrow>
        get_method extrapolation_methods (PyStr s) = (Inr Eulerian_persistence, extrapolation_methods))
   \<and> (lower s = ''semilagrangian'' \<longrightarrow>
        get_method extrapolation_methods (PyStr s) =
          (Inr Semilagrangian_extrapolate, extrapolation_methods))"
proof -
  have "lower_if_str (PyStr (lower s)) = lower_if_str (PyStr s)"
    by (simp add: lower_if_str_def lower_idem)
  then have "get_method methods (PyStr s) = get_method methods (PyStr (lower s))"
    by (simp add: get_method_def)
  moreover have "get_method extrapolation_methods (PyStr s) =
      (Inr Eulerian_persistence, extrapolation_methods)" if "lower s = ''eulerian''"
    using that by (simp add: get_method_hit map_of_methods lower_if_str_def)
  moreover have "get_method extrapolation_methods (PyStr s) =
      (Inr Semilagrangian_extrapolate, extrapolation_methods)" if "lower s = ''semilagrangian''"
    using that by (simp add: get_method_hit map_of_methods lower_if_str_def)
  ultimately show ?thesis by blast
qed

text \<open>C5 at \<^verbatim>\<open>"EuLeRiAn"\<close> and \<^verbatim>\<open>"SEMILagrangian"\<close>.\<close>

theorem get_method_case_insensitive_witness:
  "get_method extrapolation_methods (PyStr ''EuLeRiAn'') =
     get_method extrapolation_methods (PyStr (lower ''EuLeRiAn''))
   \<and> lower ''EuLeRiAn'' = ''eulerian''
   \<and> get_method extrapolation_methods (PyStr ''EuLeRiAn'') =
       (Inr Eulerian_persistence, extrapolation_methods)
   \<and> lower ''SEMILagrangian'' = ''semilagrangian''
   \<and> get_method extrapolation_methods (PyStr ''SEMILagrangian'') =
       (Inr Semilagrangian_extrapolate, extrapolation_methods)"
proof -
  have 1: "lower ''EuLeRiAn'' = ''eulerian''" by code_simp
  have 2: "lower ''SEMILagrangian'' = ''semilagrangian''" by code_simp
  show ?thesis
    using get_method_case_insensitive [of extrapolation_methods "''EuLeRiAn''"]
      get_method_case_insensitive [of extrapolation_methods "''SEMILagrangian''"] 1 2
    by blast
qed

text \<open>
  Claim C6. \<^verbatim>\<open>get_method(None)\<close> succeeds and returns \<^verbatim>\<open>_do_nothing\<close>, which for
  every field, velocity, step count and options returns \<^verbatim>\<open>None\<close>, raises nothing and
  leaves the store as it was.
\<close>

theorem get_method_none:
  "get_method extrapolation_methods PyNone = (Inr Do_nothing, extrapolation_methods)
   \<and> do_nothing h precip velocity N kw = (Inr RNone, h)"
  by (simp add: get_method_hit map_of_methods lower_if_str_def do_nothing_def)

text \<open>C6 at a store of one array, with the options \<^verbatim>\<open>return_displacement=True\<close>.\<close>

theorem get_method_none_witness:
  "get_method extrapolation_methods PyNone = (Inr Do_nothing, extrapolation_methods)
   \<and> do_nothing [\<lparr>shape = [1, 2], data = [3, 0 :: int]\<rparr>] 0 0 (- 5)
         [''return_displacement'' \<mapsto> PyBool True]
       = (Inr RNone, [\<lparr>shape = [1, 2], data = [3, 0]\<rparr>])"
  by (rule get_method_none)

text \<open>
  Claim C10. A call of \<^verbatim>\<open>get_method\<close> leaves the registry as it was, and it either
  raises (exactly when the lower-cased name is no key) or returns the function bound
  to that key, one of the registry's values. The module's registry binds
  \<^verbatim>\<open>'eulerian'\<close>, \<^verbatim>\<open>'semilagrangian'\<close> and \<^verbatim>\<open>None\<close> and nothing else, and its values
  are the three functions \<^verbatim>\<open>eulerian_persistence\<close>, \<^verbatim>\<open>semilagrangian.extrapolate\<close> and
  \<^verbatim>\<open>_do_nothing\<close>.
\<close>

theorem get_method_registry:
  "snd (get_method methods name) = methods
   \<and> (case fst (get_method methods name) of
         Inl e \<Rightarrow> map_of methods (lower_if_str name) = None
       | Inr f \<Rightarrow> map_of methods (lower_if_str name) = Some f \<and> f \<in> snd ` set methods)
   \<and> map_of extrapolation_methods =
        [PyStr ''eulerian'' \<mapsto> Eulerian_persistence,
         PyStr ''semilagrangian'' \<mapsto> Semilagrangian_extrapolate,
         PyNone \<mapsto> Do_nothing]
   \<and> snd ` set extrapolation_methods =
        {Eulerian_persistence, Semilagrangian_extrapolate, Do_nothing}"
proof -
  have "snd (get_method methods name) = methods"
    by (simp add: get_method_def Let_def split: option.split)
  moreover have "case fst (get_method methods name) of
         Inl e \<Rightarrow> map_of methods (lower_if_str name) = None
       | Inr f \<Rightarrow> map_of methods (lower_if_str name) = Some f \<and> f \<in> snd ` set methods"
  proof (cases "map_of methods (lower_if_str name)")
    case None
    then show ?thesis by (simp add: get_method_miss)
  next
    case (Some f)
    then have "(lower_if_str name, f) \<in> set methods" by (rule map_of_SomeD)
    then have "f \<in> snd ` set methods" by force
    with Some show ?thesis by (simp add: get_method_hit)
  qed
  moreover have "snd ` set extrapolation_methods =
        {Eulerian_persistence, Semilagrangian_extrapolate, Do_nothing}"
    by (auto simp: extrapolation_methods_def)
  ultimately show ?thesis
    using map_of_methods by blast
qed

text \<open>C10 at the name \<^verbatim>\<open>"Eulerian"\<close>.\<close>

theorem get_method_registry_witness:
  "snd (get_method extrapolation_methods (PyStr ''Eulerian'')) = extrapolation_methods
   \<and> fst (get_method extrapolation_methods (PyStr ''Eulerian'')) = Inr Eulerian_persistence
   \<and> Eulerian_persistence \<in> snd ` set extrapolation_methods"
proof -
  have low: "lower_if_str (PyStr ''Eulerian'') = PyStr ''eulerian''"
    by code_simp
  have hit: "get_method extrapolation_methods (PyStr ''Eulerian'') =
      (Inr Eulerian_persistence, extrapolation_methods)"
    by (rule get_method_hit) (simp add: low map_of_methods)
  show ?thesis
    using get_method_registry [of extrapolation_methods "PyStr ''Eulerian''"] hit
    by simp
qed

section \<open>The zero-velocity identity of the specified extrapolator\<close>




end
